theory Spec2Isabelle
  imports Complex_Main
begin

section \<open>Python values and exceptions\<close>

text \<open>
  The script reads worksheet cells through \<^verbatim>\<open>ws[...].value\<close>. The spreadsheet library
  hands back \<^verbatim>\<open>None\<close> for an empty cell, a \<^verbatim>\<open>str\<close> for text, a \<^verbatim>\<open>float\<close> for a number,
  a \<^verbatim>\<open>bool\<close> for a logical cell and a \<^verbatim>\<open>datetime\<close> for a date-formatted cell. A date is
  kept by its textual form (what \<^verbatim>\<open>str\<close> prints), a number by its value.
  Strings are lists of characters with code points 0 to 255.
\<close>

datatype cell = CNone | CStr string | CNum real | CBool bool | CDate string

text \<open>
  Every exception the script can meet is a subclass of \<^verbatim>\<open>Exception\<close>; it is kept as its
  class and its message (\<^verbatim>\<open>str(e)\<close>). \<open>EngineError\<close> stands for whatever the spreadsheet
  application raises.
\<close>

datatype exn_class = AttributeError | IndexError | ValueError | TypeError | OSError | EngineError

datatype py_error = Raised exn_class string

fun exn_class_of :: "py_error \<Rightarrow> exn_class" where
  "exn_class_of (Raised c m) = c"

fun message :: "py_error \<Rightarrow> string" where
  "message (Raised c m) = m"

text \<open>Truth value testing, as \<^verbatim>\<open>if x:\<close> and \<^verbatim>\<open>not x\<close> do it.\<close>

fun truthy :: "cell \<Rightarrow> bool" where
  "truthy CNone = False"
| "truthy (CStr s) = (s \<noteq> [])"
| "truthy (CNum x) = (x \<noteq> 0)"
| "truthy (CBool b) = b"
| "truthy (CDate d) = True"

text \<open>
  Library functions whose results the script only passes on are parameters of the model:
  the text of a float, the text of \<^verbatim>\<open>round(x, 1)\<close>, \<^verbatim>\<open>float\<close> on a string (\<open>None\<close> is
  its \<^verbatim>\<open>ValueError\<close>) and the separator \<^verbatim>\<open>os.path.join\<close> puts after a folder.
\<close>

datatype pyfloat = Finite real | PosInf | NegInf | NaN

record pylib =
  float_repr :: "real \<Rightarrow> string"
  round1_repr :: "real \<Rightarrow> string"
  float_of_str :: "string \<Rightarrow> pyfloat option"
  path_glue :: "string \<Rightarrow> string"

fun py_str :: "pylib \<Rightarrow> cell \<Rightarrow> string" where
  "py_str L CNone = ''None''"
| "py_str L (CStr s) = s"
| "py_str L (CNum x) = float_repr L x"
| "py_str L (CBool b) = (if b then ''True'' else ''False'')"
| "py_str L (CDate d) = d"

subsection \<open>Characters and strings\<close>

text \<open>\<^verbatim>\<open>str.isspace\<close> and \<^verbatim>\<open>str.isalnum\<close> on the code points 0 to 255.\<close>

definition isspace :: "char \<Rightarrow> bool" where
  "isspace c = (let n = (of_char c :: nat) in
     (9 \<le> n \<and> n \<le> 13) \<or> (28 \<le> n \<and> n \<le> 32) \<or> n = 133 \<or> n = 160)"

definition isalnum :: "char \<Rightarrow> bool" where
  "isalnum c = (let n = (of_char c :: nat) in
     (48 \<le> n \<and> n \<le> 57) \<or> (65 \<le> n \<and> n \<le> 90) \<or> (97 \<le> n \<and> n \<le> 122)
     \<or> n = 170 \<or> n = 178 \<or> n = 179 \<or> n = 181 \<or> n = 185 \<or> n = 186
     \<or> (188 \<le> n \<and> n \<le> 190)
     \<or> (192 \<le> n \<and> n \<le> 214) \<or> (216 \<le> n \<and> n \<le> 246) \<or> (248 \<le> n \<and> n \<le> 255))"

definition lstrip :: "string \<Rightarrow> string" where
  "lstrip s = dropWhile isspace s"

definition rstrip :: "string \<Rightarrow> string" where
  "rstrip s = rev (dropWhile isspace (rev s))"

definition strip :: "string \<Rightarrow> string" where
  "strip s = rstrip (lstrip s)"

fun startswith :: "string \<Rightarrow> string \<Rightarrow> bool" where
  "startswith s [] = True"
| "startswith [] (p # ps) = False"
| "startswith (c # cs) (p # ps) = (c = p \<and> startswith cs ps)"

text \<open>
  \<^verbatim>\<open>s.split(sep)\<close> for a non-empty separator: cut at every occurrence, left to right;
  \<open>cur\<close> is the piece being read.
\<close>

fun split_from :: "string \<Rightarrow> string \<Rightarrow> string \<Rightarrow> string list" where
  "split_from sep cur [] = [cur]"
| "split_from sep cur (c # cs) =
     (if sep \<noteq> [] \<and> startswith (c # cs) sep
      then cur # split_from sep [] (drop (length sep - 1) cs)
      else split_from sep (cur @ [c]) cs)"

definition split_sep :: "string \<Rightarrow> string \<Rightarrow> string list" where
  "split_sep s sep = split_from sep [] s"

text \<open>\<^verbatim>\<open>s.split()\<close>: the maximal runs of characters that are not whitespace.\<close>

fun split_runs :: "string \<Rightarrow> string \<Rightarrow> string list" where
  "split_runs cur [] = (if cur = [] then [] else [cur])"
| "split_runs cur (c # cs) =
     (if isspace c then (if cur = [] then split_runs [] cs else cur # split_runs [] cs)
      else split_runs (cur @ [c]) cs)"

definition split_ws :: "string \<Rightarrow> string list" where
  "split_ws s = split_runs [] s"

text \<open>\<^verbatim>\<open>xs.index(x)\<close>: the first position of \<open>x\<close>; \<open>None\<close> is its \<^verbatim>\<open>ValueError\<close>.\<close>

fun index_of :: "'a list \<Rightarrow> 'a \<Rightarrow> nat option" where
  "index_of [] x = None"
| "index_of (y # ys) x = (if y = x then Some 0 else map_option Suc (index_of ys x))"

text \<open>Decimal text of an integer, as an f-string prints it.\<close>

definition digit_char :: "nat \<Rightarrow> char" where
  "digit_char d = ''0123456789'' ! d"

fun str_nat :: "nat \<Rightarrow> string" where
  "str_nat n = (if n < 10 then [digit_char n] else str_nat (n div 10) @ [digit_char (n mod 10)])"

declare str_nat.simps [simp del]

definition quoted :: "string \<Rightarrow> string" where
  "quoted s = CHR 0x27 # s @ [CHR 0x27]"

definition no_attribute_split :: "string \<Rightarrow> py_error" where
  "no_attribute_split ty =
     Raised AttributeError (quoted ty @ '' object has no attribute '' @ quoted ''split'')"

definition str_int :: "int \<Rightarrow> string" where
  "str_int i = (if i < 0 then CHR ''-'' # str_nat (nat (- i)) else str_nat (nat i))"

section \<open>Data processing functions\<close>

subsection \<open>\<^verbatim>\<open>process_declaration_period\<close>\<close>

text \<open>
  \<^verbatim>\<open>list(calendar.month_abbr)\<close> in the locale the script starts in: thirteen entries, the
  first one empty.
\<close>

definition month_abbr :: "string list" where
  "month_abbr = ['''', ''Jan'', ''Feb'', ''Mar'', ''Apr'', ''May'', ''Jun'',
                 ''Jul'', ''Aug'', ''Sep'', ''Oct'', ''Nov'', ''Dec'']"

text \<open>
  The body of the \<^verbatim>\<open>try\<close> block on a string: \<^verbatim>\<open>parts[1]\<close> and \<^verbatim>\<open>split()[0]\<close> raise
  \<^verbatim>\<open>IndexError\<close>, \<^verbatim>\<open>index\<close> raises \<^verbatim>\<open>ValueError\<close>.
\<close>

definition period_body :: "string \<Rightarrow> py_error + string" where
  "period_body s =
     (case split_sep s '' to '' of
        [] \<Rightarrow> Inl (Raised IndexError ''list index out of range'')
      | p0 # rest \<Rightarrow>
         (case rest of
            [] \<Rightarrow> Inl (Raised IndexError ''list index out of range'')
          | p1 # others \<Rightarrow>
             (case split_ws p1 of
                [] \<Rightarrow> Inl (Raised IndexError ''list index out of range'')
              | t # ts \<Rightarrow>
                 (case index_of month_abbr (strip p0) of
                    None \<Rightarrow> Inl (Raised ValueError (quoted (strip p0) @ '' is not in list''))
                  | Some start_month_num \<Rightarrow>
                     (case index_of month_abbr (strip t) of
                        None \<Rightarrow> Inl (Raised ValueError (quoted (strip t) @ '' is not in list''))
                      | Some end_month_num \<Rightarrow>
                          Inr (str_int (int end_month_num - int start_month_num + 1)
                               @ '' months - '' @ s))))))"

text \<open>
  The function itself: a value that is not a string has no \<^verbatim>\<open>split\<close>, and the
  \<^verbatim>\<open>AttributeError\<close> is not one of the two classes the handler names.
\<close>

fun process_declaration_period :: "cell \<Rightarrow> py_error + string" where
  "process_declaration_period (CStr s) =
     (case period_body s of
        Inr r \<Rightarrow> Inr r
      | Inl e \<Rightarrow> (if exn_class_of e = IndexError \<or> exn_class_of e = ValueError
                   then Inr s else Inl e))"
| "process_declaration_period CNone =
     Inl (no_attribute_split ''NoneType'')"
| "process_declaration_period (CNum x) =
     Inl (no_attribute_split ''float'')"
| "process_declaration_period (CBool b) =
     Inl (no_attribute_split ''bool'')"
| "process_declaration_period (CDate d) =
     Inl (no_attribute_split ''datetime.datetime'')"

subsection \<open>\<^verbatim>\<open>sanitize_filename\<close>\<close>

definition keep_char :: "char \<Rightarrow> bool" where
  "keep_char c = (isalnum c \<or> c = CHR '' '' \<or> c = CHR ''-'' \<or> c = CHR ''_'')"

definition sanitize_filename :: "pylib \<Rightarrow> cell \<Rightarrow> string" where
  "sanitize_filename L s = rstrip (filter keep_char (py_str L s))"

section \<open>The source worksheet\<close>

text \<open>
  The worksheet \<^verbatim>\<open>RFAS GHG Saving Calculation\<close> of the source workbook is a function from
  a column letter and a row number to the value of the cell; the address \<^verbatim>\<open>f'E{row}'\<close> is
  the pair of the letter and the row. \<^verbatim>\<open>float(v)\<close> on a cell value: a number is itself, a
  truth value is 1 or 0, a string is parsed by the library, and any other object is a
  \<^verbatim>\<open>TypeError\<close>.
\<close>

type_synonym worksheet = "char \<Rightarrow> nat \<Rightarrow> cell"

definition not_a_number :: "string \<Rightarrow> py_error" where
  "not_a_number ty =
     Raised TypeError (''float() argument must be a string or a real number, not '' @ quoted ty)"

fun py_float :: "pylib \<Rightarrow> cell \<Rightarrow> py_error + pyfloat" where
  "py_float L (CNum x) = Inr (Finite x)"
| "py_float L (CBool b) = Inr (Finite (if b then 1 else 0))"
| "py_float L (CStr s) =
     (case float_of_str L s of
        Some f \<Rightarrow> Inr f
      | None \<Rightarrow> Inl (Raised ValueError (''could not convert string to float: '' @ quoted s)))"
| "py_float L (CDate d) = Inl (not_a_number ''datetime.datetime'')"
| "py_float L CNone = Inl (not_a_number ''NoneType'')"

text \<open>
  \<^verbatim>\<open>x >= 0.01\<close>. A cell number is the real value of a double, and no double lies between
  one hundredth and the double the literal denotes, so the comparison is the one of the reals.
\<close>

fun at_least :: "pyfloat \<Rightarrow> real \<Rightarrow> bool" where
  "at_least (Finite x) t = (t \<le> x)"
| "at_least PosInf t = True"
| "at_least NegInf t = False"
| "at_least NaN t = False"

section \<open>The scanning pass of \<^verbatim>\<open>process_all_supply_blend_rows\<close>\<close>

text \<open>
  The loop over \<^verbatim>\<open>range(2, last_row + 1)\<close>, with \<open>rows_to_process\<close> as accumulator. Only a
  \<^verbatim>\<open>ValueError\<close> of the coercion is handled (by \<^verbatim>\<open>continue\<close>); any other exception leaves the
  loop and the function.
\<close>

fun scan_rows :: "pylib \<Rightarrow> worksheet \<Rightarrow> nat list \<Rightarrow> nat list \<Rightarrow> py_error + nat list" where
  "scan_rows L ws rows_to_process [] = Inr rows_to_process"
| "scan_rows L ws rows_to_process (row_num # rest) =
     (let ff_blend_value = ws CHR ''E'' row_num;
          customer_name = ws CHR ''A'' row_num
      in if ff_blend_value \<noteq> CNone then
           (case py_float L ff_blend_value of
              Inl e \<Rightarrow> (if exn_class_of e = ValueError then scan_rows L ws rows_to_process rest
                         else Inl e)
            | Inr ff_blend_float \<Rightarrow>
                (if at_least ff_blend_float (1 / 100) \<and> truthy customer_name
                 then scan_rows L ws (rows_to_process @ [row_num]) rest
                 else scan_rows L ws rows_to_process rest))
         else scan_rows L ws rows_to_process rest)"

definition eligible_rows :: "pylib \<Rightarrow> worksheet \<Rightarrow> nat \<Rightarrow> py_error + nat list" where
  "eligible_rows L ws last_row = scan_rows L ws [] [2..<last_row + 1]"

section \<open>Data extraction\<close>

record row_data =
  customer_name :: cell
  customer_address :: cell
  volume_of_fuel_supplied :: cell
  renewable_percentage :: cell
  ghg_emissions_intensity :: cell
  declaration_number :: cell
  certificate_number :: cell
  declaration_period :: cell
  date_dec_issued :: cell
  production_process :: cell
  country_of_production :: cell
  distribution_of_fuel :: cell
  feedstock :: cell
  country_of_origin :: cell
  traceability_from_origin :: cell
  sc_voluntary_sustain_scheme :: cell

text \<open>
  What the spreadsheet application, the clock and the file system do during one call of
  \<^verbatim>\<open>create_declaration_for_row\<close>: for each external call, the exception it raises, if any.
  \<open>source_error\<close> is for opening the source workbook and its worksheet in
  \<^verbatim>\<open>extract_row_data\<close>, \<open>today\<close> is the date stamp, \<open>copy_error\<close> is for \<^verbatim>\<open>shutil.copy2\<close>,
  \<open>open_error\<close> for starting the application and opening the copy, \<open>write_error\<close> for the
  assignment to the cell at an address, \<open>export_error\<close> for \<^verbatim>\<open>ExportAsFixedFormat\<close>,
  \<open>save_as_error\<close> for \<^verbatim>\<open>wb.save_as\<close>, \<open>save_error\<close> for \<^verbatim>\<open>wb.save\<close> and \<open>close_error\<close> for
  \<^verbatim>\<open>wb.close\<close> and leaving the \<^verbatim>\<open>with\<close> block.
\<close>

record engine =
  source_error :: "py_error option"
  today :: string
  copy_error :: "py_error option"
  open_error :: "py_error option"
  write_error :: "string \<Rightarrow> py_error option"
  export_error :: "py_error option"
  save_as_error :: "py_error option"
  save_error :: "py_error option"
  close_error :: "py_error option"

definition extract_row_data :: "engine \<Rightarrow> worksheet \<Rightarrow> nat \<Rightarrow> py_error + row_data" where
  "extract_row_data E ws row_number =
     (case source_error E of
        Some e \<Rightarrow> Inl e
      | None \<Rightarrow> Inr \<lparr>
          customer_name = ws CHR ''B'' row_number,
          customer_address = ws CHR ''N'' row_number,
          volume_of_fuel_supplied = ws CHR ''D'' row_number,
          renewable_percentage = ws CHR ''F'' row_number,
          ghg_emissions_intensity = ws CHR ''I'' row_number,
          declaration_number = ws CHR ''M'' row_number,
          certificate_number = ws CHR ''K'' row_number,
          declaration_period = ws CHR ''O'' row_number,
          date_dec_issued = CStr (today E),
          production_process = ws CHR ''Q'' row_number,
          country_of_production = ws CHR ''R'' row_number,
          distribution_of_fuel = ws CHR ''S'' row_number,
          feedstock = ws CHR ''T'' row_number,
          country_of_origin = ws CHR ''U'' row_number,
          traceability_from_origin = ws CHR ''V'' row_number,
          sc_voluntary_sustain_scheme = ws CHR ''W'' row_number \<rparr>)"

section \<open>\<^verbatim>\<open>create_declaration_for_row\<close>\<close>

text \<open>
  \<^verbatim>\<open>os.path.join(folder, name)\<close> for a file name that is relative and has no drive: the
  folder, the separator the platform puts after this folder (possibly none), the name.
\<close>

definition os_path_join :: "pylib \<Rightarrow> string \<Rightarrow> string \<Rightarrow> string" where
  "os_path_join L folder name = folder @ path_glue L folder @ name"

text \<open>
  Steps 4 and 5: the three sanitized tokens and the three paths built from them.
\<close>

definition temp_excel_file :: "pylib \<Rightarrow> string \<Rightarrow> nat \<Rightarrow> row_data \<Rightarrow> string" where
  "temp_excel_file L output_folder row_number rd =
     (let saveable_customer_name = sanitize_filename L (customer_name rd)
      in os_path_join L output_folder
           (''temp_'' @ str_nat row_number @ ''_Renewable_Fuel_Declaration - ''
              @ saveable_customer_name @ ''.xlsm''))"

definition output_name :: "pylib \<Rightarrow> row_data \<Rightarrow> string" where
  "output_name L rd =
     (let saveable_customer_name = sanitize_filename L (customer_name rd);
          saveable_certificate_number = sanitize_filename L (certificate_number rd);
          saveable_declaration_period = sanitize_filename L (declaration_period rd)
      in ''Renewable_Fuel_Declaration - '' @ saveable_certificate_number @ '' - ''
           @ saveable_declaration_period @ '' - '' @ saveable_customer_name)"

definition pdf_output_file :: "pylib \<Rightarrow> string \<Rightarrow> row_data \<Rightarrow> string" where
  "pdf_output_file L output_folder rd = os_path_join L output_folder (output_name L rd @ ''.pdf'')"

definition excel_output_file :: "pylib \<Rightarrow> string \<Rightarrow> row_data \<Rightarrow> string" where
  "excel_output_file L output_folder rd = os_path_join L output_folder (output_name L rd @ ''.xlsm'')"

text \<open>
  The text for cell D13, \<^verbatim>\<open>f"{round(volume, 1)} kg"\<close>: \<^verbatim>\<open>round\<close> is defined on numbers
  (on a truth value it gives the integer) and raises \<^verbatim>\<open>TypeError\<close> on anything else.
\<close>

definition no_round :: "string \<Rightarrow> py_error" where
  "no_round ty = Raised TypeError (''type '' @ ty @ '' doesn'' @ [CHR 0x27] @ ''t define __round__ method'')"

fun volume_text :: "pylib \<Rightarrow> cell \<Rightarrow> py_error + string" where
  "volume_text L (CNum x) = Inr (round1_repr L x @ '' kg'')"
| "volume_text L (CBool b) = Inr ((if b then ''1'' else ''0'') @ '' kg'')"
| "volume_text L CNone = Inl (no_round ''NoneType'')"
| "volume_text L (CStr s) = Inl (no_round ''str'')"
| "volume_text L (CDate d) = Inl (no_round ''datetime.datetime'')"

definition update_data :: "pylib \<Rightarrow> row_data \<Rightarrow> string \<Rightarrow> py_error + (string \<times> cell) list" where
  "update_data L rd total_dec_period =
     (case volume_text L (volume_of_fuel_supplied rd) of
        Inl e \<Rightarrow> Inl e
      | Inr volume \<Rightarrow> Inr
         [(''D5'', customer_name rd),
          (''Q5'', customer_address rd),
          (''D8'', declaration_number rd),
          (''Q7'', CStr total_dec_period),
          (''Q8'', date_dec_issued rd),
          (''D12'', renewable_percentage rd),
          (''D13'', CStr volume),
          (''U11'', ghg_emissions_intensity rd),
          (''D15'', production_process rd),
          (''D17'', country_of_production rd),
          (''D19'', distribution_of_fuel rd),
          (''D26'', feedstock rd),
          (''D29'', country_of_origin rd),
          (''D32'', traceability_from_origin rd),
          (''D34'', sc_voluntary_sustain_scheme rd)])"

text \<open>The loop that writes the cells stops at the first write that raises.\<close>

fun write_fields :: "engine \<Rightarrow> (string \<times> cell) list \<Rightarrow> py_error option" where
  "write_fields E [] = None"
| "write_fields E ((cell_address, v) # rest) =
     (case write_error E cell_address of
        Some e \<Rightarrow> Some e
      | None \<Rightarrow> write_fields E rest)"

text \<open>
  What the call leaves on disk, in order: the copy of the template, the PDF export, a
  \<^verbatim>\<open>wb.save_as(path)\<close> and a \<^verbatim>\<open>wb.save()\<close>, which writes the workbook where it was opened.
\<close>

datatype fs_event =
    Copied string string
  | ExportedPdf string
  | SavedAs string
  | Saved string

definition close_workbook :: "engine \<Rightarrow> bool \<Rightarrow> fs_event list \<Rightarrow> (py_error + bool) \<times> fs_event list" where
  "close_workbook E pdf_created_successfully evs =
     (case close_error E of
        Some e \<Rightarrow> (Inl e, evs)
      | None \<Rightarrow> (Inr pdf_created_successfully, evs))"

text \<open>
  The outer \<^verbatim>\<open>try\<close> block (steps 7 to 12): either the exception that left it or the flag
  \<open>pdf_created_successfully\<close> at its end, and the files written on the way. The inner
  \<^verbatim>\<open>try\<close> around the export turns its exception into the flag.
\<close>

definition fill_and_export ::
  "pylib \<Rightarrow> engine \<Rightarrow> row_data \<Rightarrow> string \<Rightarrow> string \<Rightarrow> string \<Rightarrow> string \<Rightarrow> bool \<Rightarrow> bool
     \<Rightarrow> (py_error + bool) \<times> fs_event list" where
  "fill_and_export L E rd total_dec_period temp_path pdf_path excel_path
       save_as_pdf keep_excel =
     (case open_error E of
        Some e \<Rightarrow> (Inl e, [])
      | None \<Rightarrow>
         (case update_data L rd total_dec_period of
            Inl e \<Rightarrow> (Inl e, [])
          | Inr upd \<Rightarrow>
             (case write_fields E upd of
                Some e \<Rightarrow> (Inl e, [])
              | None \<Rightarrow>
                 (let pdf_created_successfully = (save_as_pdf \<and> export_error E = None);
                      evs = (if pdf_created_successfully then [ExportedPdf pdf_path] else [])
                  in if keep_excel \<or> (save_as_pdf \<and> \<not> pdf_created_successfully) then
                       (if keep_excel then
                          (case save_as_error E of
                             Some e \<Rightarrow> (Inl e, evs)
                           | None \<Rightarrow> close_workbook E pdf_created_successfully
                                       (evs @ [SavedAs excel_path]))
                        else
                          (case save_error E of
                             Some e \<Rightarrow> (Inl e, evs)
                           | None \<Rightarrow> close_workbook E pdf_created_successfully
                                       (evs @ [Saved temp_path])))
                     else close_workbook E pdf_created_successfully evs))))"

text \<open>
  The result of a call: the exception it raises or the value it returns (\<^verbatim>\<open>None\<close> or a
  path), the list \<open>temp_files_list\<close> after the call, and the files written.
\<close>

record row_outcome =
  returned :: "py_error + string option"
  temp_files :: "string list option"
  fs_events :: "fs_event list"

definition create_declaration_for_row ::
  "pylib \<Rightarrow> engine \<Rightarrow> worksheet \<Rightarrow> string \<Rightarrow> nat \<Rightarrow> string \<Rightarrow> bool \<Rightarrow> bool
     \<Rightarrow> string list option \<Rightarrow> row_outcome" where
  "create_declaration_for_row L E source template_file row_number output_folder
       save_as_pdf keep_excel temp_files_list =
     (case extract_row_data E source row_number of
        Inl e \<Rightarrow> \<lparr>returned = Inl e, temp_files = temp_files_list, fs_events = []\<rparr>
      | Inr rd \<Rightarrow>
         if \<not> truthy (customer_name rd)
         then \<lparr>returned = Inr None, temp_files = temp_files_list, fs_events = []\<rparr>
         else
          (case process_declaration_period (declaration_period rd) of
             Inl e \<Rightarrow> \<lparr>returned = Inl e, temp_files = temp_files_list, fs_events = []\<rparr>
           | Inr total_dec_period \<Rightarrow>
              (case copy_error E of
                 Some e \<Rightarrow> \<lparr>returned = Inl e, temp_files = temp_files_list, fs_events = []\<rparr>
               | None \<Rightarrow>
                  (let block = fill_and_export L E rd total_dec_period
                         (temp_excel_file L output_folder row_number rd)
                         (pdf_output_file L output_folder rd)
                         (excel_output_file L output_folder rd) save_as_pdf keep_excel;
                       pdf_created_successfully =
                         (case fst block of Inl e \<Rightarrow> False | Inr ok \<Rightarrow> ok)
                   in \<lparr>returned =
                         Inr (Some (if save_as_pdf \<and> pdf_created_successfully
                                    then pdf_output_file L output_folder rd
                                    else excel_output_file L output_folder rd)),
                       temp_files =
                         (case temp_files_list of
                            None \<Rightarrow> None
                          | Some files \<Rightarrow>
                              if save_as_pdf \<and> pdf_created_successfully \<and> \<not> keep_excel
                              then Some (files @ [temp_excel_file L output_folder row_number rd])
                              else Some files),
                       fs_events =
                         Copied template_file (temp_excel_file L output_folder row_number rd)
                           # snd block\<rparr>))))"

text \<open>The path an event writes.\<close>

fun written :: "fs_event \<Rightarrow> string" where
  "written (Copied src dst) = dst"
| "written (ExportedPdf path) = path"
| "written (SavedAs path) = path"
| "written (Saved path) = path"

section \<open>\<^verbatim>\<open>cleanup_temp_files\<close>\<close>

text \<open>
  One pass through the body of the inner \<^verbatim>\<open>try\<close>: the file is not there
  (\<^verbatim>\<open>os.path.exists\<close> is false), it is there and \<^verbatim>\<open>os.remove\<close> succeeds, or an exception
  is raised. The file system decides; it is a parameter.
\<close>

datatype attempt_outcome = Absent | Removed | Fails py_error

text \<open>
  What the function does, in order: \<open>Attempt f a\<close> marks a pass of the \<^verbatim>\<open>try\<close> body for
  file \<open>f\<close> with loop variable \<open>a\<close>; the others are its prints and its calls of
  \<^verbatim>\<open>time.sleep\<close> (with the seconds).
\<close>

datatype cleanup_event =
    NothingToClean
  | Attempt string nat
  | Deleted string
  | AttemptFailed nat string string
  | Sleep nat
  | CouldNotDelete string

text \<open>
  The loop \<^verbatim>\<open>for attempt in range(5)\<close> on the attempts still to make: \<^verbatim>\<open>break\<close> ends it,
  the handler prints, sleeps and goes on, and the \<^verbatim>\<open>else\<close> of the loop runs when the
  attempts are used up.
\<close>

fun delete_attempts :: "(nat \<Rightarrow> attempt_outcome) \<Rightarrow> string \<Rightarrow> nat list \<Rightarrow> cleanup_event list" where
  "delete_attempts fs temp_file [] = [CouldNotDelete temp_file]"
| "delete_attempts fs temp_file (attempt # rest) =
     Attempt temp_file attempt #
     (case fs attempt of
        Absent \<Rightarrow> []
      | Removed \<Rightarrow> [Deleted temp_file]
      | Fails e \<Rightarrow> AttemptFailed (attempt + 1) temp_file (message e) # Sleep 1
                    # delete_attempts fs temp_file rest)"

text \<open>The outer loop; \<open>i\<close> is the position of the file in the list.\<close>

fun cleanup_files :: "(nat \<Rightarrow> nat \<Rightarrow> attempt_outcome) \<Rightarrow> nat \<Rightarrow> string list \<Rightarrow> cleanup_event list" where
  "cleanup_files fs i [] = []"
| "cleanup_files fs i (temp_file # rest) =
     delete_attempts (fs i) temp_file [0..<5] @ cleanup_files fs (Suc i) rest"

definition cleanup_temp_files :: "(nat \<Rightarrow> nat \<Rightarrow> attempt_outcome) \<Rightarrow> string list \<Rightarrow> cleanup_event list" where
  "cleanup_temp_files fs temp_files_list =
     (if temp_files_list = [] then [NothingToClean] else cleanup_files fs 0 temp_files_list)"

section \<open>The processing loop of \<^verbatim>\<open>process_all_supply_blend_rows\<close>\<close>

text \<open>
  The three lists of the function, the line it prints for each row, the calls it makes to
  \<^verbatim>\<open>create_declaration_for_row\<close> and \<^verbatim>\<open>cleanup_temp_files\<close> in order, the files written and
  what the cleanup did.
\<close>

datatype row_report = Processed nat | Skipped nat | Errored nat string

datatype call = Instantiate nat | Clean "string list"

record batch =
  created_files :: "string list"
  error_files :: "(nat \<times> string) list"
  temp_files_to_cleanup :: "string list"
  console :: "row_report list"
  calls :: "call list"
  disk :: "fs_event list"
  cleanup_log :: "cleanup_event list"

definition empty_batch :: batch where
  "empty_batch = \<lparr>created_files = [], error_files = [], temp_files_to_cleanup = [],
     console = [], calls = [], disk = [], cleanup_log = []\<rparr>"

text \<open>One pass of the loop body, with its \<^verbatim>\<open>except Exception\<close>.\<close>

definition process_row ::
  "pylib \<Rightarrow> engine \<Rightarrow> worksheet \<Rightarrow> string \<Rightarrow> string \<Rightarrow> bool \<Rightarrow> bool \<Rightarrow> batch \<Rightarrow> nat \<Rightarrow> batch" where
  "process_row L E source template_file output_folder save_as_pdf keep_excel st row_num =
     (let out = create_declaration_for_row L E source template_file row_num output_folder
                  save_as_pdf keep_excel (Some (temp_files_to_cleanup st));
          st1 = st\<lparr>temp_files_to_cleanup :=
                      (case temp_files out of
                         Some files \<Rightarrow> files
                       | None \<Rightarrow> temp_files_to_cleanup st),
                    calls := calls st @ [Instantiate row_num],
                    disk := disk st @ fs_events out\<rparr>
      in case returned out of
           Inl e \<Rightarrow> st1\<lparr>error_files := error_files st @ [(row_num, message e)],
                         console := console st @ [Errored row_num (message e)]\<rparr>
         | Inr None \<Rightarrow> st1\<lparr>console := console st @ [Skipped row_num]\<rparr>
         | Inr (Some output_file) \<Rightarrow>
             if output_file \<noteq> []
             then st1\<lparr>created_files := created_files st @ [output_file],
                      console := console st @ [Processed row_num]\<rparr>
             else st1\<lparr>console := console st @ [Skipped row_num]\<rparr>)"

text \<open>
  The loop over \<open>rows_to_process\<close>; \<open>engines i\<close> is what the outside world does during
  pass \<open>i\<close>.
\<close>

fun process_rows ::
  "pylib \<Rightarrow> (nat \<Rightarrow> engine) \<Rightarrow> worksheet \<Rightarrow> string \<Rightarrow> string \<Rightarrow> bool \<Rightarrow> bool
     \<Rightarrow> nat \<Rightarrow> batch \<Rightarrow> nat list \<Rightarrow> batch" where
  "process_rows L engines source template_file output_folder save_as_pdf keep_excel i st [] = st"
| "process_rows L engines source template_file output_folder save_as_pdf keep_excel i st
       (row_num # rest) =
     process_rows L engines source template_file output_folder save_as_pdf keep_excel (Suc i)
       (process_row L (engines i) source template_file output_folder save_as_pdf keep_excel
          st row_num)
       rest"

record world =
  scan_error :: "py_error option"
  sheet :: worksheet
  end_down_row :: nat
  engines :: "nat \<Rightarrow> engine"
  deletions :: "nat \<Rightarrow> nat \<Rightarrow> attempt_outcome"

text \<open>Steps 3 and 4: the loop, then the one call of the cleanup.\<close>

definition process_and_cleanup ::
  "pylib \<Rightarrow> world \<Rightarrow> string \<Rightarrow> string \<Rightarrow> bool \<Rightarrow> bool \<Rightarrow> nat list \<Rightarrow> batch" where
  "process_and_cleanup L W template_file output_folder save_as_pdf keep_excel rows_to_process =
     (let st = process_rows L (engines W) (sheet W) template_file output_folder save_as_pdf
                 keep_excel 0 empty_batch rows_to_process
      in st\<lparr>calls := calls st @ [Clean (temp_files_to_cleanup st)],
            cleanup_log := cleanup_temp_files (deletions W) (temp_files_to_cleanup st)\<rparr>)"

definition process_all_supply_blend_rows ::
  "pylib \<Rightarrow> world \<Rightarrow> string \<Rightarrow> string \<Rightarrow> bool \<Rightarrow> bool \<Rightarrow> py_error + batch" where
  "process_all_supply_blend_rows L W template_file output_folder save_as_pdf keep_excel =
     (case scan_error W of
        Some e \<Rightarrow> Inl e
      | None \<Rightarrow>
         (case eligible_rows L (sheet W) (end_down_row W) of
            Inl e \<Rightarrow> Inl e
          | Inr rows_to_process \<Rightarrow>
              Inr (process_and_cleanup L W template_file output_folder save_as_pdf keep_excel
                     rows_to_process)))"

fun row_of :: "row_report \<Rightarrow> nat" where
  "row_of (Processed r) = r"
| "row_of (Skipped r) = r"
| "row_of (Errored r m) = r"

section \<open>A worked example\<close>

text \<open>
  A source sheet with five data rows: row 2 is complete; row 3 has no volume; row 4 has
  no declaration period; the blend cell of row 5 holds the text \<^verbatim>\<open>n/a\<close>; the blend cell of
  row 6 is formatted as a date. The library instance joins paths with a backslash; the one
  number it has to print is the volume 1234.56, and no text of the sheet is a numeral.
\<close>

definition demo_lib :: pylib where
  "demo_lib = \<lparr>float_repr = (\<lambda>x. ''1234.56''), round1_repr = (\<lambda>x. ''1234.6''),
     float_of_str = (\<lambda>s. None), path_glue = (\<lambda>folder. [CHR 0x5C])\<rparr>"

definition demo_sheet :: worksheet where
  "demo_sheet col r =
     (if 2 \<le> r \<and> r \<le> 6 then
        (if col = CHR ''A'' \<or> col = CHR ''B'' then CStr ''Acme & Co.''
         else if col = CHR ''D'' then (if r = 3 then CNone else CNum 1234.56)
         else if col = CHR ''E'' then
           (if r = 5 then CStr ''n/a''
            else if r = 6 then CDate ''2025-01-02 00:00:00'' else CNum 0.05)
         else if col = CHR ''K'' then CStr ''CERT-7''
         else if col = CHR ''O'' then (if r = 4 then CNone else CStr ''Jan to Mar 2025'')
         else CStr ''x'')
      else CNone)"

definition ok_engine :: engine where
  "ok_engine = \<lparr>source_error = None, today = ''01/02/2025'', copy_error = None,
     open_error = None, write_error = (\<lambda>a. None), export_error = None,
     save_as_error = None, save_error = None, close_error = None\<rparr>"

definition failing_export :: engine where
  "failing_export = ok_engine\<lparr>export_error := Some (Raised EngineError ''export failed'')\<rparr>"

definition demo_world :: world where
  "demo_world = \<lparr>scan_error = None, sheet = demo_sheet, end_down_row = 5,
     engines = (\<lambda>i. ok_engine),
     deletions = (\<lambda>i a. if a < 2 then Fails (Raised OSError ''file is locked'') else Absent)\<rparr>"

section \<open>Notions used to state the properties\<close>

text \<open>
  The eligibility predicate of a row, in the words of the specification: the fraction cell
  is present, it can be coerced to a float, the float is at least 0.01, and the name cell
  is not empty (as the truth value test sees it).
\<close>

definition qualifies :: "pylib \<Rightarrow> worksheet \<Rightarrow> nat \<Rightarrow> bool" where
  "qualifies L ws r =
     (ws CHR ''E'' r \<noteq> CNone \<and>
      (case py_float L (ws CHR ''E'' r) of
         Inl e \<Rightarrow> False
       | Inr x \<Rightarrow> at_least x (1 / 100) \<and> truthy (ws CHR ''A'' r)))"

fun is_date :: "cell \<Rightarrow> bool" where
  "is_date (CDate d) = True"
| "is_date c = False"

text \<open>
  The events of one failed pass of the deletion loop (the attempt, the message of the
  handler, the pause of one second) and of the pass that ends the loop.
\<close>

fun is_fail :: "attempt_outcome \<Rightarrow> bool" where
  "is_fail (Fails e) = True"
| "is_fail outcome = False"

fun failure_message :: "attempt_outcome \<Rightarrow> string" where
  "failure_message (Fails e) = message e"
| "failure_message outcome = []"

definition failed_round :: "(nat \<Rightarrow> attempt_outcome) \<Rightarrow> string \<Rightarrow> nat \<Rightarrow> cleanup_event list" where
  "failed_round fs f a = [Attempt f a, AttemptFailed (a + 1) f (failure_message (fs a)), Sleep 1]"

definition success_round :: "(nat \<Rightarrow> attempt_outcome) \<Rightarrow> string \<Rightarrow> nat \<Rightarrow> cleanup_event list" where
  "success_round fs f a = Attempt f a # (if fs a = Removed then [Deleted f] else [])"

text \<open>
  Two file systems for the examples: a file that is locked during two attempts and gone
  (deleted by someone else) at the third, and a file that stays locked.
\<close>

definition locked_twice :: "nat \<Rightarrow> attempt_outcome" where
  "locked_twice a = (if a < 2 then Fails (Raised OSError ''file is locked'') else Absent)"

definition always_locked :: "nat \<Rightarrow> attempt_outcome" where
  "always_locked a = Fails (Raised OSError ''file is locked'')"

text \<open>
  A row processed on its own, that is with an empty cleanup list, and what such a call
  contributes to the lists and the console of the batch.
\<close>

definition outcome_alone ::
  "pylib \<Rightarrow> engine \<Rightarrow> worksheet \<Rightarrow> string \<Rightarrow> string \<Rightarrow> bool \<Rightarrow> bool \<Rightarrow> nat \<Rightarrow> row_outcome" where
  "outcome_alone L E ws t f pdf keep r = create_declaration_for_row L E ws t r f pdf keep (Some [])"

fun errors_of :: "nat \<Rightarrow> row_outcome \<Rightarrow> (nat \<times> string) list" where
  "errors_of r out = (case returned out of Inl e \<Rightarrow> [(r, message e)] | Inr v \<Rightarrow> [])"

fun report_of :: "nat \<Rightarrow> row_outcome \<Rightarrow> row_report" where
  "report_of r out =
     (case returned out of
        Inl e \<Rightarrow> Errored r (message e)
      | Inr None \<Rightarrow> Skipped r
      | Inr (Some p) \<Rightarrow> if p \<noteq> [] then Processed r else Skipped r)"

fun created_of :: "row_outcome \<Rightarrow> string list" where
  "created_of out =
     (case returned out of
        Inl e \<Rightarrow> []
      | Inr None \<Rightarrow> []
      | Inr (Some p) \<Rightarrow> if p \<noteq> [] then [p] else [])"

fun registered_of :: "row_outcome \<Rightarrow> string list" where
  "registered_of out = (case temp_files out of None \<Rightarrow> [] | Some files \<Rightarrow> files)"

text \<open>
  Row 2 of the example sheet as extracted, row 3 (the same without its volume), and the
  paths of their files.
\<close>

definition demo_row :: row_data where
  "demo_row = \<lparr>customer_name = CStr ''Acme & Co.'', customer_address = CStr ''x'',
     volume_of_fuel_supplied = CNum 1234.56, renewable_percentage = CStr ''x'',
     ghg_emissions_intensity = CStr ''x'', declaration_number = CStr ''x'',
     certificate_number = CStr ''CERT-7'', declaration_period = CStr ''Jan to Mar 2025'',
     date_dec_issued = CStr ''01/02/2025'', production_process = CStr ''x'',
     country_of_production = CStr ''x'', distribution_of_fuel = CStr ''x'',
     feedstock = CStr ''x'', country_of_origin = CStr ''x'',
     traceability_from_origin = CStr ''x'', sc_voluntary_sustain_scheme = CStr ''x''\<rparr>"

definition demo_row_no_volume :: row_data where
  "demo_row_no_volume = demo_row\<lparr>volume_of_fuel_supplied := CNone\<rparr>"

definition demo_temp :: "nat \<Rightarrow> string" where
  "demo_temp r = os_path_join demo_lib ''out''
     (''temp_'' @ str_nat r @ ''_Renewable_Fuel_Declaration - Acme  Co.xlsm'')"

definition demo_pdf :: string where
  "demo_pdf = os_path_join demo_lib ''out''
     ''Renewable_Fuel_Declaration - CERT-7 - Jan to Mar 2025 - Acme  Co.pdf''"

definition demo_xlsm :: string where
  "demo_xlsm = os_path_join demo_lib ''out''
     ''Renewable_Fuel_Declaration - CERT-7 - Jan to Mar 2025 - Acme  Co.xlsm''"

section \<open>Properties of the data processing functions\<close>

subsection \<open>\<^verbatim>\<open>sanitize_filename\<close>\<close>

lemma isalnum_not_isspace: "isalnum c \<Longrightarrow> \<not> isspace c"
  by (auto simp: isalnum_def isspace_def Let_def)

lemma keep_char_space: "keep_char c \<Longrightarrow> isspace c \<Longrightarrow> c = CHR '' ''"
  using isalnum_not_isspace by (auto simp: keep_char_def isspace_def)

lemma rstrip_decompose: "s = rstrip s @ rev (takeWhile isspace (rev s))"
proof -
  have "rev (takeWhile isspace (rev s) @ dropWhile isspace (rev s)) = s"
    by (simp only: takeWhile_dropWhile_id rev_rev_ident)
  then have "rev (dropWhile isspace (rev s)) @ rev (takeWhile isspace (rev s)) = s"
    by (simp only: rev_append)
  then show ?thesis by (simp only: rstrip_def)
qed

lemma rstrip_no_trailing_space: "rstrip s = [] \<or> \<not> isspace (last (rstrip s))"
proof (cases "dropWhile isspace (rev s)")
  case Nil
  then show ?thesis by (simp add: rstrip_def)
next
  case (Cons c cs)
  then have "\<not> isspace c" using hd_dropWhile[of isspace "rev s"] by auto
  then show ?thesis using Cons by (simp add: rstrip_def)
qed

lemma set_rstrip: "set (rstrip s) \<subseteq> set s"
  by (auto simp: rstrip_def dest: set_dropWhileD)

lemma all_same_replicate: "\<forall>x\<in>set ys. x = a \<Longrightarrow> ys = replicate (length ys) a"
  by (induction ys) auto

text \<open>
  Claim C5, as the code has it. For every value (\<^verbatim>\<open>None\<close> included, through its text
  \<^verbatim>\<open>str(s)\<close>), every character of the result is alphanumeric, a space, a hyphen or an
  underscore; the result is the sequence of all such characters of the text, in order,
  less the spaces at its end; it does not end in whitespace; \<^verbatim>\<open>None\<close> gives \<^verbatim>\<open>None\<close>; and
  \<^verbatim>\<open>O'Brien & Sons, Ltd.\<close> gives \<^verbatim>\<open>OBrien  Sons Ltd\<close>, where the two spaces around the
  removed ampersand both stay.
\<close>

theorem sanitize_filename_retains:
  "(\<forall>c \<in> set (sanitize_filename L v).
      isalnum c \<or> c = CHR '' '' \<or> c = CHR ''-'' \<or> c = CHR ''_'')
   \<and> (\<exists>n. filter keep_char (py_str L v) = sanitize_filename L v @ replicate n CHR '' '')
   \<and> (sanitize_filename L v = [] \<or> \<not> isspace (last (sanitize_filename L v)))
   \<and> sanitize_filename L CNone = ''None''
   \<and> sanitize_filename L (CStr ''O'Brien & Sons, Ltd.'') = ''OBrien  Sons Ltd''"
proof -
  let ?k = "filter keep_char (py_str L v)"
  have a: "\<forall>c \<in> set (sanitize_filename L v).
             isalnum c \<or> c = CHR '' '' \<or> c = CHR ''-'' \<or> c = CHR ''_''"
  proof
    fix c assume "c \<in> set (sanitize_filename L v)"
    then have "c \<in> set ?k" using set_rstrip[of ?k] by (auto simp: sanitize_filename_def)
    then show "isalnum c \<or> c = CHR '' '' \<or> c = CHR ''-'' \<or> c = CHR ''_''"
      by (simp add: keep_char_def)
  qed
  let ?t = "rev (takeWhile isspace (rev ?k))"
  have "\<forall>c \<in> set ?t. c = CHR '' ''"
  proof
    fix c assume c: "c \<in> set ?t"
    then have "c \<in> set (takeWhile isspace (rev ?k))" by simp
    then have "isspace c" and "c \<in> set (rev ?k)"
      by (auto dest: set_takeWhileD)
    then show "c = CHR '' ''" using keep_char_space by auto
  qed
  then have "?t = replicate (length ?t) CHR '' ''" by (rule all_same_replicate)
  then have "?k = sanitize_filename L v @ replicate (length ?t) CHR '' ''"
    using rstrip_decompose[of ?k] by (simp add: sanitize_filename_def)
  then have b: "\<exists>n. ?k = sanitize_filename L v @ replicate n CHR '' ''" by blast
  have c: "sanitize_filename L v = [] \<or> \<not> isspace (last (sanitize_filename L v))"
    using rstrip_no_trailing_space[of ?k] by (simp add: sanitize_filename_def)
  have d: "sanitize_filename L CNone = ''None''" by code_simp
  have e: "sanitize_filename L (CStr ''O'Brien & Sons, Ltd.'') = ''OBrien  Sons Ltd''"
    by code_simp
  from a b c d e show ?thesis by blast
qed

text \<open>
  The theorem at the customer name of the example sheet: the letter \<^verbatim>\<open>m\<close> is a character
  of the result, so it is one of the retained kinds.
\<close>

theorem sanitize_filename_retains_witness:
  "CHR ''m'' \<in> set (sanitize_filename demo_lib (CStr ''Acme & Co.''))
   \<and> (isalnum CHR ''m'' \<or> CHR ''m'' = CHR '' '' \<or> CHR ''m'' = CHR ''-'' \<or> CHR ''m'' = CHR ''_'')"
proof -
  have mem: "CHR ''m'' \<in> set (sanitize_filename demo_lib (CStr ''Acme & Co.''))"
    by code_simp
  from sanitize_filename_retains[of demo_lib "CStr ''Acme & Co.''"]
  have "\<forall>c \<in> set (sanitize_filename demo_lib (CStr ''Acme & Co.'')).
          isalnum c \<or> c = CHR '' '' \<or> c = CHR ''-'' \<or> c = CHR ''_''"
    by (rule conjunct1)
  from bspec[OF this mem] mem show ?thesis by (rule_tac conjI)
qed

text \<open>
  The example of claim C5 as the specification prints it, with one space between the two
  words, is not what the function returns.
\<close>

theorem sanitize_filename_example_differs:
  "sanitize_filename demo_lib (CStr ''O'Brien & Sons, Ltd.'') \<noteq> ''OBrien Sons Ltd''"
  by code_simp

subsection \<open>\<^verbatim>\<open>process_declaration_period\<close>\<close>

lemma period_body_raises:
  "period_body s = Inl e \<Longrightarrow> exn_class_of e = IndexError \<or> exn_class_of e = ValueError"
  by (auto simp: period_body_def split: list.splits option.splits)

lemma process_declaration_period_text_returns:
  "\<exists>r. process_declaration_period (CStr s) = Inr r"
  by (cases "period_body s") (auto dest: period_body_raises)

lemma process_declaration_period_shape:
  "process_declaration_period (CStr s) = Inr r \<Longrightarrow>
     r = s \<or> (\<exists>n. r = str_int n @ '' months - '' @ s)"
  by (auto simp: period_body_def split: list.splits option.splits if_splits)

lemma index_of_empty_month: "index_of month_abbr [] = Some 0"
  by (simp add: month_abbr_def)

text \<open>
  A text whose part before the first \<^verbatim>\<open>" to "\<close> is blank is formatted whenever its end token
  is in the table, with 0 as the ordinal of the start.
\<close>

lemma empty_start_token_accepted:
  assumes "split_sep s '' to '' = p0 # p1 # others" and "strip p0 = []"
    and "split_ws p1 = t # ts" and "index_of month_abbr (strip t) = Some m"
  shows "process_declaration_period (CStr s) = Inr (str_int (int m + 1) @ '' months - '' @ s)"
  using assms by (simp add: period_body_def index_of_empty_month)

text \<open>
  Claim C10. The table \<^verbatim>\<open>list(calendar.month_abbr)\<close> has the empty string at index 0, the
  lookup gives the empty token the ordinal 0, and \<^verbatim>\<open>" to Mar 2025"\<close> comes back as
  \<^verbatim>\<open>"4 months -  to Mar 2025"\<close>.
\<close>

theorem empty_token_is_month_zero:
  "month_abbr ! 0 = [] \<and> index_of month_abbr [] = Some 0
   \<and> process_declaration_period (CStr '' to Mar 2025'') = Inr ''4 months -  to Mar 2025''"
  by code_simp

text \<open>
  Claim C4 fails on the code. The input \<^verbatim>\<open>" to Jan 2025"\<close> has no start abbreviation, yet it
  is not returned unchanged; and the value \<^verbatim>\<open>None\<close> of an empty cell makes the function raise
  \<^verbatim>\<open>AttributeError\<close>, which its handler does not catch.
\<close>

theorem process_declaration_period_empty_start:
  "process_declaration_period (CStr '' to Jan 2025'') = Inr ''2 months -  to Jan 2025''
   \<and> process_declaration_period CNone = Inl (no_attribute_split ''NoneType'')"
  by code_simp

section \<open>Properties of the scanning pass\<close>

lemma py_float_error_class:
  "py_float L c = Inl e \<Longrightarrow> c \<noteq> CNone \<Longrightarrow> \<not> is_date c \<Longrightarrow> exn_class_of e = ValueError"
  by (cases c) (auto split: option.splits)

text \<open>
  On a sheet whose fraction cells hold no date, the loop returns the rows that qualify, in
  the order of the sheet, after what it had collected.
\<close>

lemma scan_rows_filter:
  "list_all (\<lambda>r. \<not> is_date (ws CHR ''E'' r)) rows \<Longrightarrow>
   scan_rows L ws acc rows = Inr (acc @ filter (qualifies L ws) rows)"
proof (induction rows arbitrary: acc)
  case Nil
  then show ?case by simp
next
  case (Cons r rows)
  then have nd: "\<not> is_date (ws CHR ''E'' r)"
    and rest: "list_all (\<lambda>r. \<not> is_date (ws CHR ''E'' r)) rows"
    by simp_all
  note IH = Cons.IH[OF rest]
  show ?case
  proof (cases "ws CHR ''E'' r = CNone")
    case True
    then show ?thesis using IH by (simp add: qualifies_def)
  next
    case False
    show ?thesis
    proof (cases "py_float L (ws CHR ''E'' r)")
      case (Inl e)
      then have "exn_class_of e = ValueError" using py_float_error_class False nd by blast
      then show ?thesis using Inl False IH by (simp add: qualifies_def)
    next
      case (Inr x)
      then show ?thesis using False IH by (simp add: qualifies_def)
    qed
  qed
qed

lemma eligible_rows_filter:
  "list_all (\<lambda>r. \<not> is_date (ws CHR ''E'' r)) [2..<last_row + 1] \<Longrightarrow>
   eligible_rows L ws last_row = Inr (filter (qualifies L ws) [2..<last_row + 1])"
  using scan_rows_filter[of ws "[2..<last_row + 1]" L "[]"] by (simp add: eligible_rows_def)

text \<open>
  Claim C3 fails on the code. On the example sheet read up to row 5 the scan returns rows
  2, 3 and 4 and passes over row 5, whose fraction is the text \<^verbatim>\<open>n/a\<close>. Read up to row 6,
  whose fraction cell is a date, the coercion raises \<^verbatim>\<open>TypeError\<close>, which the handler for
  \<^verbatim>\<open>ValueError\<close> lets through: the scan and the whole run end with that exception and no
  row is processed.
\<close>

theorem scan_aborts_on_date_cell:
  "eligible_rows demo_lib demo_sheet 5 = Inr [2, 3, 4]
   \<and> eligible_rows demo_lib demo_sheet 6 = Inl (not_a_number ''datetime.datetime'')
   \<and> process_all_supply_blend_rows demo_lib (demo_world\<lparr>end_down_row := 6\<rparr>)
        ''template.xlsm'' ''out'' True False
      = Inl (not_a_number ''datetime.datetime'')"
  by code_simp

section \<open>Properties of \<^verbatim>\<open>cleanup_temp_files\<close>\<close>

lemma delete_attempts_all_fail:
  "list_all (\<lambda>a. is_fail (fs a)) as \<Longrightarrow>
   delete_attempts fs f as = concat (map (failed_round fs f) as) @ [CouldNotDelete f]"
proof (induction as)
  case Nil
  then show ?case by simp
next
  case (Cons a as)
  then obtain e where "fs a = Fails e" by (cases "fs a") auto
  then show ?case using Cons by (simp add: failed_round_def)
qed

lemma delete_attempts_first_success:
  "list_all (\<lambda>a. is_fail (fs a)) pre \<Longrightarrow> \<not> is_fail (fs k) \<Longrightarrow>
   delete_attempts fs f (pre @ k # post)
     = concat (map (failed_round fs f) pre) @ success_round fs f k"
proof (induction pre)
  case Nil
  then show ?case by (cases "fs k") (simp_all add: success_round_def)
next
  case (Cons a pre)
  then obtain e where "fs a = Fails e" by (cases "fs a") auto
  then show ?case using Cons by (simp add: failed_round_def)
qed

lemma cleanup_files_concat:
  "cleanup_files fs i files
     = concat (map (\<lambda>(j, f). delete_attempts (fs j) f [0..<5]) (enumerate i files))"
  by (induction files arbitrary: i) simp_all

text \<open>
  Claim C7. The function is total: every exception of a deletion attempt is handled inside
  the loop, so no call of it raises. For a file of the list, with \<open>fs\<close> the outcomes of its
  attempts: if the first \<open>k\<close> attempts fail and attempt \<open>k\<close> (one of the five) does not, the
  function makes exactly these \<open>k + 1\<close> attempts, pauses one second after each failed one,
  prints \<^verbatim>\<open>Deleted\<close> if it removed the file and nothing if the file was no longer there, and
  makes no further attempt; if all five attempts fail it makes five attempts, each followed
  by its pause of one second, and then reports the file as not deleted. The files of the
  list are treated one after the other, each in this way; an empty list is only reported.
\<close>

theorem cleanup_temp_files_bounded_retry:
  "(k < 5 \<and> (\<forall>j<k. is_fail (fs j)) \<and> \<not> is_fail (fs k) \<longrightarrow>
      delete_attempts fs f [0..<5]
        = concat (map (failed_round fs f) [0..<k]) @ success_round fs f k)
   \<and> ((\<forall>j<5. is_fail (fs j)) \<longrightarrow>
      delete_attempts fs f [0..<5]
        = concat (map (failed_round fs f) [0..<5]) @ [CouldNotDelete f])
   \<and> cleanup_temp_files fss files =
       (if files = [] then [NothingToClean]
        else concat (map (\<lambda>(i, f). delete_attempts (fss i) f [0..<5]) (enumerate 0 files)))"
proof (intro conjI impI)
  assume h: "k < 5 \<and> (\<forall>j<k. is_fail (fs j)) \<and> \<not> is_fail (fs k)"
  then have split: "[0..<5] = [0..<k] @ k # [Suc k..<5]"
    using upt_add_eq_append[of 0 k "5 - k"] upt_conv_Cons[of k 5] by simp
  have "list_all (\<lambda>a. is_fail (fs a)) [0..<k]" using h by (simp add: list_all_iff)
  from delete_attempts_first_success[OF this, of k f "[Suc k..<5]"] h split
  show "delete_attempts fs f [0..<5]
          = concat (map (failed_round fs f) [0..<k]) @ success_round fs f k"
    by simp
next
  assume "\<forall>j<5. is_fail (fs j)"
  then have "list_all (\<lambda>a. is_fail (fs a)) [0..<5]" by (simp add: list_all_iff)
  then show "delete_attempts fs f [0..<5]
               = concat (map (failed_round fs f) [0..<5]) @ [CouldNotDelete f]"
    by (rule delete_attempts_all_fail)
next
  show "cleanup_temp_files fss files =
       (if files = [] then [NothingToClean]
        else concat (map (\<lambda>(i, f). delete_attempts (fss i) f [0..<5]) (enumerate 0 files)))"
    by (simp add: cleanup_temp_files_def cleanup_files_concat)
qed

text \<open>
  The theorem on the two example file systems: a file locked twice and then gone is left
  after the third attempt, with two pauses; a file that stays locked is given up after five
  attempts and five pauses.
\<close>

theorem cleanup_temp_files_bounded_retry_witness:
  "is_fail (locked_twice 0) \<and> is_fail (locked_twice 1) \<and> \<not> is_fail (locked_twice 2)
   \<and> delete_attempts locked_twice ''t.xlsm'' [0..<5] =
       [Attempt ''t.xlsm'' 0, AttemptFailed 1 ''t.xlsm'' ''file is locked'', Sleep 1,
        Attempt ''t.xlsm'' 1, AttemptFailed 2 ''t.xlsm'' ''file is locked'', Sleep 1,
        Attempt ''t.xlsm'' 2]
   \<and> delete_attempts always_locked ''t.xlsm'' [0..<5] =
       [Attempt ''t.xlsm'' 0, AttemptFailed 1 ''t.xlsm'' ''file is locked'', Sleep 1,
        Attempt ''t.xlsm'' 1, AttemptFailed 2 ''t.xlsm'' ''file is locked'', Sleep 1,
        Attempt ''t.xlsm'' 2, AttemptFailed 3 ''t.xlsm'' ''file is locked'', Sleep 1,
        Attempt ''t.xlsm'' 3, AttemptFailed 4 ''t.xlsm'' ''file is locked'', Sleep 1,
        Attempt ''t.xlsm'' 4, AttemptFailed 5 ''t.xlsm'' ''file is locked'', Sleep 1,
        CouldNotDelete ''t.xlsm'']"
proof -
  have a: "is_fail (locked_twice 0)" "is_fail (locked_twice 1)" "\<not> is_fail (locked_twice 2)"
    by (simp_all add: locked_twice_def)
  have pre: "(2::nat) < 5 \<and> (\<forall>j<2. is_fail (locked_twice j)) \<and> \<not> is_fail (locked_twice 2)"
    by (simp add: locked_twice_def)
  have all: "\<forall>j<5. is_fail (always_locked j)" by (simp add: always_locked_def)
  have r1: "concat (map (failed_round locked_twice ''t.xlsm'') [0..<2])
              @ success_round locked_twice ''t.xlsm'' 2
     = [Attempt ''t.xlsm'' 0, AttemptFailed 1 ''t.xlsm'' ''file is locked'', Sleep 1,
        Attempt ''t.xlsm'' 1, AttemptFailed 2 ''t.xlsm'' ''file is locked'', Sleep 1,
        Attempt ''t.xlsm'' 2]" by code_simp
  have r2: "concat (map (failed_round always_locked ''t.xlsm'') [0..<5])
              @ [CouldNotDelete ''t.xlsm'']
     = [Attempt ''t.xlsm'' 0, AttemptFailed 1 ''t.xlsm'' ''file is locked'', Sleep 1,
        Attempt ''t.xlsm'' 1, AttemptFailed 2 ''t.xlsm'' ''file is locked'', Sleep 1,
        Attempt ''t.xlsm'' 2, AttemptFailed 3 ''t.xlsm'' ''file is locked'', Sleep 1,
        Attempt ''t.xlsm'' 3, AttemptFailed 4 ''t.xlsm'' ''file is locked'', Sleep 1,
        Attempt ''t.xlsm'' 4, AttemptFailed 5 ''t.xlsm'' ''file is locked'', Sleep 1,
        CouldNotDelete ''t.xlsm'']" by code_simp
  from cleanup_temp_files_bounded_retry
         [where k = 2 and fs = locked_twice and f = "''t.xlsm''"]
  have "delete_attempts locked_twice ''t.xlsm'' [0..<5]
         = concat (map (failed_round locked_twice ''t.xlsm'') [0..<2])
             @ success_round locked_twice ''t.xlsm'' 2"
    using pre by blast
  moreover
  from cleanup_temp_files_bounded_retry [where fs = always_locked and f = "''t.xlsm''"]
  have "delete_attempts always_locked ''t.xlsm'' [0..<5]
         = concat (map (failed_round always_locked ''t.xlsm'') [0..<5])
             @ [CouldNotDelete ''t.xlsm'']"
    using all by blast
  ultimately show ?thesis using a r1 r2 by simp
qed

section \<open>Properties of \<^verbatim>\<open>create_declaration_for_row\<close>\<close>

lemma create_reaches_block:
  assumes "extract_row_data E ws r = Inr rd" and "truthy (customer_name rd)"
    and "process_declaration_period (declaration_period rd) = Inr tdp"
    and "copy_error E = None"
  shows "create_declaration_for_row L E ws t r f pdf keep tfl =
    (let block = fill_and_export L E rd tdp (temp_excel_file L f r rd)
                   (pdf_output_file L f rd) (excel_output_file L f rd) pdf keep;
         ok = (case fst block of Inl e \<Rightarrow> False | Inr b \<Rightarrow> b)
     in \<lparr>returned = Inr (Some (if pdf \<and> ok then pdf_output_file L f rd
                                 else excel_output_file L f rd)),
         temp_files = (case tfl of None \<Rightarrow> None
                       | Some files \<Rightarrow> if pdf \<and> ok \<and> \<not> keep
                           then Some (files @ [temp_excel_file L f r rd]) else Some files),
         fs_events = Copied t (temp_excel_file L f r rd) # snd block\<rparr>)"
  using assms by (simp add: create_declaration_for_row_def)

lemma returned_Some_reaches:
  assumes "returned (create_declaration_for_row L E ws t r f pdf keep tfl) = Inr (Some p)"
    and "extract_row_data E ws r = Inr rd"
  shows "truthy (customer_name rd)
     \<and> (\<exists>tdp. process_declaration_period (declaration_period rd) = Inr tdp)
     \<and> copy_error E = None"
  using assms
  by (auto simp: create_declaration_for_row_def split: sum.splits option.splits if_splits)

lemma returned_independent:
  "returned (create_declaration_for_row L E ws t r f pdf keep tfl)
     = returned (create_declaration_for_row L E ws t r f pdf keep tfl')"
  by (simp add: create_declaration_for_row_def Let_def split: sum.split option.split)

lemma temp_files_append:
  "temp_files (create_declaration_for_row L E ws t r f pdf keep (Some files))
     = Some (files @ registered_of (outcome_alone L E ws t f pdf keep r))"
  by (auto simp: outcome_alone_def create_declaration_for_row_def Let_def
           split: sum.split option.split)

lemma fill_and_export_flags_off:
  "fill_and_export L E rd tdp tp pp ep False False = (x, evs) \<Longrightarrow>
     evs = [] \<and> (case x of Inl e \<Rightarrow> False | Inr b \<Rightarrow> b) = False"
  by (auto simp: fill_and_export_def close_workbook_def Let_def split: sum.splits option.splits)


lemma output_differs_from_temp: "excel_output_file L f rd \<noteq> temp_excel_file L f r rd"
  by (simp add: excel_output_file_def temp_excel_file_def os_path_join_def output_name_def Let_def)

lemma excel_output_nonempty: "excel_output_file L f rd \<noteq> []"
  by (simp add: excel_output_file_def os_path_join_def output_name_def Let_def)

lemma registered_flags_off: "registered_of (outcome_alone L E ws t f False False r) = []"
proof (cases "returned (outcome_alone L E ws t f False False r)")
  case (Inl e)
  then show ?thesis
    by (auto simp: outcome_alone_def create_declaration_for_row_def Let_def
             split: sum.splits option.splits if_splits)
next
  case (Inr v)
  then show ?thesis
    by (auto simp: outcome_alone_def create_declaration_for_row_def Let_def
          fill_and_export_def close_workbook_def
             split: sum.splits option.splits if_splits)
qed

subsection \<open>One pass of the loop, and the loop\<close>

lemma process_row_fields:
  "error_files (process_row L E ws t f pdf keep st r)
     = error_files st @ errors_of r (outcome_alone L E ws t f pdf keep r)"
  "console (process_row L E ws t f pdf keep st r)
     = console st @ [report_of r (outcome_alone L E ws t f pdf keep r)]"
  "created_files (process_row L E ws t f pdf keep st r)
     = created_files st @ created_of (outcome_alone L E ws t f pdf keep r)"
  "temp_files_to_cleanup (process_row L E ws t f pdf keep st r)
     = temp_files_to_cleanup st @ registered_of (outcome_alone L E ws t f pdf keep r)"
  "calls (process_row L E ws t f pdf keep st r) = calls st @ [Instantiate r]"
  "cleanup_log (process_row L E ws t f pdf keep st r) = cleanup_log st"
proof -
  let ?o = "create_declaration_for_row L E ws t r f pdf keep (Some (temp_files_to_cleanup st))"
  have r: "returned ?o = returned (outcome_alone L E ws t f pdf keep r)"
    unfolding outcome_alone_def by (rule returned_independent)
  have tf: "temp_files ?o
     = Some (temp_files_to_cleanup st @ registered_of (outcome_alone L E ws t f pdf keep r))"
    by (rule temp_files_append)
  show "error_files (process_row L E ws t f pdf keep st r)
     = error_files st @ errors_of r (outcome_alone L E ws t f pdf keep r)"
    using r by (simp add: process_row_def Let_def split: sum.split option.split)
  show "console (process_row L E ws t f pdf keep st r)
     = console st @ [report_of r (outcome_alone L E ws t f pdf keep r)]"
    using r by (simp add: process_row_def Let_def split: sum.split option.split)
  show "created_files (process_row L E ws t f pdf keep st r)
     = created_files st @ created_of (outcome_alone L E ws t f pdf keep r)"
    using r by (simp add: process_row_def Let_def split: sum.split option.split)
  show "temp_files_to_cleanup (process_row L E ws t f pdf keep st r)
     = temp_files_to_cleanup st @ registered_of (outcome_alone L E ws t f pdf keep r)"
    using tf by (simp add: process_row_def Let_def split: sum.split option.split)
  show "calls (process_row L E ws t f pdf keep st r) = calls st @ [Instantiate r]"
    by (simp add: process_row_def Let_def split: sum.split option.split)
  show "cleanup_log (process_row L E ws t f pdf keep st r) = cleanup_log st"
    by (simp add: process_row_def Let_def split: sum.split option.split)
qed

lemma process_rows_fields:
  "error_files (process_rows L es ws t f pdf keep i st rows)
     = error_files st
         @ concat (map (\<lambda>(j, r). errors_of r (outcome_alone L (es j) ws t f pdf keep r))
                     (enumerate i rows))"
  "console (process_rows L es ws t f pdf keep i st rows)
     = console st
         @ map (\<lambda>(j, r). report_of r (outcome_alone L (es j) ws t f pdf keep r))
             (enumerate i rows)"
  "created_files (process_rows L es ws t f pdf keep i st rows)
     = created_files st
         @ concat (map (\<lambda>(j, r). created_of (outcome_alone L (es j) ws t f pdf keep r))
                     (enumerate i rows))"
  "temp_files_to_cleanup (process_rows L es ws t f pdf keep i st rows)
     = temp_files_to_cleanup st
         @ concat (map (\<lambda>(j, r). registered_of (outcome_alone L (es j) ws t f pdf keep r))
                     (enumerate i rows))"
  "calls (process_rows L es ws t f pdf keep i st rows) = calls st @ map Instantiate rows"
  by (induction rows arbitrary: i st; simp add: process_row_fields)+

lemma row_of_report_of: "row_of (report_of r out) = r"
  by (simp split: sum.split option.split)

subsection \<open>The example rows\<close>

lemma demo_extract: "extract_row_data ok_engine demo_sheet 2 = Inr demo_row"
  by code_simp



lemma demo_paths:
  "excel_output_file demo_lib ''out'' demo_row = demo_xlsm"
  "pdf_output_file demo_lib ''out'' demo_row = demo_pdf"
  "temp_excel_file demo_lib ''out'' 2 demo_row = demo_temp 2"
  "excel_output_file demo_lib ''out'' demo_row_no_volume = demo_xlsm"
  "temp_excel_file demo_lib ''out'' 3 demo_row_no_volume = demo_temp 3"
  by code_simp+

lemma demo_flags_off:
  "returned (create_declaration_for_row demo_lib ok_engine demo_sheet ''template.xlsm'' 2
     ''out'' False False (Some [])) = Inr (Some demo_xlsm)"
  by code_simp

subsection \<open>The fallback after a failed export\<close>

text \<open>
  Claim C1 fails on the code. On row 2 of the example sheet, with the PDF export failing,
  \<open>save_as_pdf\<close> true and \<open>keep_excel\<close> false, the function copies the template to the
  temporary path and then saves the workbook where it is, at the temporary path; it
  returns the \<^verbatim>\<open>.xlsm\<close> output path, at which nothing has been written. The temporary file
  is not registered for cleanup.
\<close>

theorem fallback_saves_in_place:
  "create_declaration_for_row demo_lib failing_export demo_sheet ''template.xlsm'' 2 ''out''
     True False (Some [])
    = \<lparr>returned = Inr (Some demo_xlsm), temp_files = Some [],
       fs_events = [Copied ''template.xlsm'' (demo_temp 2), Saved (demo_temp 2)]\<rparr>
   \<and> demo_xlsm \<noteq> demo_temp 2"
  by code_simp

text \<open>
  The same for every row that reaches the export: when the export raises (and \<open>keep_excel\<close>
  is false), the path returned is the \<^verbatim>\<open>.xlsm\<close> output path and no file is written there.
\<close>

lemma fallback_leaves_output_unwritten:
  assumes "extract_row_data E ws r = Inr rd" and "truthy (customer_name rd)"
    and "process_declaration_period (declaration_period rd) = Inr tdp"
    and "copy_error E = None" and "export_error E = Some e"
  shows "returned (create_declaration_for_row L E ws t r f True False tfl)
           = Inr (Some (excel_output_file L f rd))
    \<and> excel_output_file L f rd
          \<notin> written ` set (fs_events (create_declaration_for_row L E ws t r f True False tfl))"
  using create_reaches_block[OF assms(1-4), of L t f True False tfl] assms(5)
    output_differs_from_temp[of L f rd r]
  by (auto simp: fill_and_export_def close_workbook_def Let_def
           split: sum.splits option.splits if_splits)

subsection \<open>An exception while the fields are written\<close>




subsection \<open>Registration of the temporary file\<close>




subsection \<open>Both output formats switched off\<close>

text \<open>
  Claim C9. With \<open>save_as_pdf\<close> and \<open>keep_excel\<close> both false, a call that returns a path
  (the row is not skipped) returns the \<^verbatim>\<open>.xlsm\<close> output path; the only file written is the
  copy of the template at the temporary path, so neither the export nor a save took place
  and no file was written at the returned path; the cleanup list is left as it was; the
  loop of the batch counts the path as a created file and reports the row as processed
  without registering anything. Over a whole batch nothing is ever registered, so the
  cleanup is called with the empty list and deletes no temporary copy.
\<close>

theorem flags_off_returns_unwritten_path:
  assumes ret: "returned (create_declaration_for_row L E ws t r f False False tfl)
                  = Inr (Some p)"
    and ex: "extract_row_data E ws r = Inr rd"
  shows "p = excel_output_file L f rd
    \<and> fs_events (create_declaration_for_row L E ws t r f False False tfl)
        = [Copied t (temp_excel_file L f r rd)]
    \<and> p \<notin> written ` set (fs_events (create_declaration_for_row L E ws t r f False False tfl))
    \<and> temp_files (create_declaration_for_row L E ws t r f False False tfl) = tfl
    \<and> created_files (process_row L E ws t f False False st r) = created_files st @ [p]
    \<and> console (process_row L E ws t f False False st r) = console st @ [Processed r]
    \<and> temp_files_to_cleanup (process_row L E ws t f False False st r)
        = temp_files_to_cleanup st
    \<and> temp_files_to_cleanup (process_and_cleanup L W t f False False rows) = []
    \<and> cleanup_log (process_and_cleanup L W t f False False rows) = [NothingToClean]"
proof -
  from returned_Some_reaches[OF ret ex] obtain tdp where
    tr: "truthy (customer_name rd)"
    and pd: "process_declaration_period (declaration_period rd) = Inr tdp"
    and cp: "copy_error E = None" by blast
  obtain x evs where fe: "fill_and_export L E rd tdp (temp_excel_file L f r rd)
       (pdf_output_file L f rd) (excel_output_file L f rd) False False = (x, evs)"
    by (cases "fill_and_export L E rd tdp (temp_excel_file L f r rd)
       (pdf_output_file L f rd) (excel_output_file L f rd) False False")
  note off = fill_and_export_flags_off[OF fe]
  have out: "\<And>tfl. create_declaration_for_row L E ws t r f False False tfl
     = \<lparr>returned = Inr (Some (excel_output_file L f rd)), temp_files = tfl,
        fs_events = [Copied t (temp_excel_file L f r rd)]\<rparr>"
    using create_reaches_block[OF ex tr pd cp, of L t f False False] fe off
    by (simp add: Let_def split: option.split)
  have p: "p = excel_output_file L f rd" using ret out by simp
  have row: "p = excel_output_file L f rd
    \<and> fs_events (create_declaration_for_row L E ws t r f False False tfl)
        = [Copied t (temp_excel_file L f r rd)]
    \<and> p \<notin> written ` set (fs_events (create_declaration_for_row L E ws t r f False False tfl))
    \<and> temp_files (create_declaration_for_row L E ws t r f False False tfl) = tfl
    \<and> created_files (process_row L E ws t f False False st r) = created_files st @ [p]
    \<and> console (process_row L E ws t f False False st r) = console st @ [Processed r]
    \<and> temp_files_to_cleanup (process_row L E ws t f False False st r)
        = temp_files_to_cleanup st"
    using p out output_differs_from_temp[of L f rd r] excel_output_nonempty[of L f rd]
    by (simp add: process_row_def Let_def)
  have none: "temp_files_to_cleanup (process_and_cleanup L W t f False False rows) = []"
    by (simp add: process_and_cleanup_def Let_def process_rows_fields empty_batch_def
          registered_flags_off del: registered_of.simps)
  have log: "cleanup_log (process_and_cleanup L W t f False False rows) = [NothingToClean]"
    using none by (simp add: process_and_cleanup_def Let_def cleanup_temp_files_def)
  from row none log show ?thesis by blast
qed

text \<open>The theorem on row 2 of the example sheet and on the batch of its rows 2 to 4.\<close>

theorem flags_off_returns_unwritten_path_witness:
  "returned (create_declaration_for_row demo_lib ok_engine demo_sheet ''template.xlsm'' 2
      ''out'' False False (Some [])) = Inr (Some demo_xlsm)
   \<and> extract_row_data ok_engine demo_sheet 2 = Inr demo_row
   \<and> fs_events (create_declaration_for_row demo_lib ok_engine demo_sheet ''template.xlsm'' 2
        ''out'' False False (Some [])) = [Copied ''template.xlsm'' (demo_temp 2)]
   \<and> temp_files (create_declaration_for_row demo_lib ok_engine demo_sheet ''template.xlsm'' 2
        ''out'' False False (Some [])) = Some []
   \<and> created_files (process_row demo_lib ok_engine demo_sheet ''template.xlsm'' ''out''
        False False empty_batch 2) = [demo_xlsm]
   \<and> temp_files_to_cleanup (process_row demo_lib ok_engine demo_sheet ''template.xlsm''
        ''out'' False False empty_batch 2) = []
   \<and> cleanup_log (process_and_cleanup demo_lib demo_world ''template.xlsm'' ''out''
        False False [2, 3, 4]) = [NothingToClean]"
  using flags_off_returns_unwritten_path[OF demo_flags_off demo_extract,
          of empty_batch demo_world "[2, 3, 4]"]
        demo_flags_off demo_extract
  by (simp add: demo_paths empty_batch_def)

section \<open>Properties of the processing loop\<close>

text \<open>
  Claim C8. For every list of rows: the orchestrator calls
  \<^verbatim>\<open>create_declaration_for_row\<close> once for each row, in the order of the list, and after the
  last of them calls the cleanup once, with the list of registered files as it then stands;
  the console has one line for each row, in order, whatever happened to the rows before it;
  the error entries are the pairs of row number and message of exactly the rows whose call
  raised, in order; each row's outcome is the one it has when processed on its own, so an
  exception in one row changes nothing for the others; and the registered files are those
  of the rows, in order.
\<close>

theorem batch_continues_after_row_errors:
  "calls (process_and_cleanup L W t f pdf keep rows)
     = map Instantiate rows
         @ [Clean (temp_files_to_cleanup (process_and_cleanup L W t f pdf keep rows))]
   \<and> console (process_and_cleanup L W t f pdf keep rows)
     = map (\<lambda>(i, r). report_of r (outcome_alone L (engines W i) (sheet W) t f pdf keep r))
         (enumerate 0 rows)
   \<and> map row_of (console (process_and_cleanup L W t f pdf keep rows)) = rows
   \<and> error_files (process_and_cleanup L W t f pdf keep rows)
     = concat (map (\<lambda>(i, r). errors_of r (outcome_alone L (engines W i) (sheet W) t f pdf keep r))
         (enumerate 0 rows))
   \<and> created_files (process_and_cleanup L W t f pdf keep rows)
     = concat (map (\<lambda>(i, r). created_of (outcome_alone L (engines W i) (sheet W) t f pdf keep r))
         (enumerate 0 rows))
   \<and> temp_files_to_cleanup (process_and_cleanup L W t f pdf keep rows)
     = concat (map (\<lambda>(i, r). registered_of (outcome_alone L (engines W i) (sheet W) t f pdf keep r))
         (enumerate 0 rows))
   \<and> cleanup_log (process_and_cleanup L W t f pdf keep rows)
     = cleanup_temp_files (deletions W)
         (temp_files_to_cleanup (process_and_cleanup L W t f pdf keep rows))"
proof -
  have m: "map (row_of \<circ> (\<lambda>(i, r). report_of r
                 (outcome_alone L (engines W i) (sheet W) t f pdf keep r))) (enumerate 0 rows)
        = map snd (enumerate 0 rows)"
    by (rule map_cong) (auto simp del: report_of.simps simp: row_of_report_of)
  show ?thesis
    by (simp add: process_and_cleanup_def Let_def process_rows_fields empty_batch_def m
             del: report_of.simps errors_of.simps registered_of.simps created_of.simps)
qed

text \<open>
  The theorem on the example: row 4, whose period cell is empty, raises; the error is
  recorded, row 2 after it is processed, and the cleanup is called once at the end with
  the temporary file of row 2.
\<close>

theorem batch_continues_after_row_errors_witness:
  "calls (process_and_cleanup demo_lib demo_world ''template.xlsm'' ''out'' True False [4, 2])
     = [Instantiate 4, Instantiate 2, Clean [demo_temp 2]]
   \<and> console (process_and_cleanup demo_lib demo_world ''template.xlsm'' ''out'' True False [4, 2])
     = [Errored 4 (message (no_attribute_split ''NoneType'')), Processed 2]
   \<and> error_files (process_and_cleanup demo_lib demo_world ''template.xlsm'' ''out'' True False [4, 2])
     = [(4, message (no_attribute_split ''NoneType''))]
   \<and> created_files (process_and_cleanup demo_lib demo_world ''template.xlsm'' ''out'' True False [4, 2])
     = [demo_pdf]"
proof -
  have a: "map (\<lambda>(i, r). report_of r (outcome_alone demo_lib (engines demo_world i)
             (sheet demo_world) ''template.xlsm'' ''out'' True False r)) (enumerate 0 [4, 2])
           = [Errored 4 (message (no_attribute_split ''NoneType'')), Processed 2]"
    by code_simp
  have b: "concat (map (\<lambda>(i, r). errors_of r (outcome_alone demo_lib (engines demo_world i)
             (sheet demo_world) ''template.xlsm'' ''out'' True False r)) (enumerate 0 [4, 2]))
           = [(4, message (no_attribute_split ''NoneType''))]"
    by code_simp
  have c: "concat (map (\<lambda>(i, r). registered_of (outcome_alone demo_lib (engines demo_world i)
             (sheet demo_world) ''template.xlsm'' ''out'' True False r)) (enumerate 0 [4, 2]))
           = [demo_temp 2]"
    by code_simp
  have d: "concat (map (\<lambda>(i, r). created_of (outcome_alone demo_lib (engines demo_world i)
             (sheet demo_world) ''template.xlsm'' ''out'' True False r)) (enumerate 0 [4, 2]))
           = [demo_pdf]"
    by code_simp
  from batch_continues_after_row_errors
         [of demo_lib demo_world "''template.xlsm''" "''out''" True False "[4, 2]"]
  show ?thesis by (simp only: a b c d list.map append.simps)
qed

end
